theory Spec2Isabelle
  imports Main
begin

section \<open>Python values and the operations the tracker applies to them\<close>

text \<open>
  The tracker (\<^verbatim>\<open>src/main.py\<close>) handles three kinds of data: the command line, the
  values that \<^verbatim>\<open>response.json()\<close> builds from a reply, and text. A parsed reply is a
  \<open>pyval\<close>: \<^verbatim>\<open>None\<close>, a bool, an int, a str, a list or a dict with str keys (an
  association list read with \<open>map_of\<close>). The numbers of the API (level, rank) are integers;
  a number with a fraction is not part of this development. A \<open>string\<close> is the UTF-8
  text of a Python str.
\<close>

datatype pyval =
    PNone
  | PBool bool
  | PInt int
  | PStr string
  | PList "pyval list"
  | PDict "(string \<times> pyval) list"

text \<open>The exceptions that the source's \<^verbatim>\<open>try\<close> blocks can meet.\<close>

datatype exn =
    RequestException
  | JSONDecodeError
  | AttributeError
  | TypeError
  | OSError
  | ValueError

text \<open>\<^verbatim>\<open>not v\<close> is \<open>\<not> truthy v\<close>.\<close>

fun truthy :: "pyval \<Rightarrow> bool" where
  "truthy PNone = False"
| "truthy (PBool b) = b"
| "truthy (PInt i) = (i \<noteq> 0)"
| "truthy (PStr s) = (s \<noteq> [])"
| "truthy (PList xs) = (xs \<noteq> [])"
| "truthy (PDict kvs) = (kvs \<noteq> [])"

text \<open>
  \<^verbatim>\<open>v.get(key, default)\<close>: only a dict has \<^verbatim>\<open>get\<close>; on anything else the attribute
  lookup raises \<^verbatim>\<open>AttributeError\<close>.
\<close>

definition dict_get :: "(string \<times> pyval) list \<Rightarrow> string \<Rightarrow> pyval \<Rightarrow> pyval" where
  "dict_get kvs key dflt = (case map_of kvs key of None \<Rightarrow> dflt | Some v \<Rightarrow> v)"

fun py_get :: "pyval \<Rightarrow> string \<Rightarrow> pyval \<Rightarrow> exn + pyval" where
  "py_get (PDict kvs) key dflt = Inr (dict_get kvs key dflt)"
| "py_get PNone key dflt = Inl AttributeError"
| "py_get (PBool b) key dflt = Inl AttributeError"
| "py_get (PInt i) key dflt = Inl AttributeError"
| "py_get (PStr s) key dflt = Inl AttributeError"
| "py_get (PList xs) key dflt = Inl AttributeError"

text \<open>
  \<^verbatim>\<open>for x in v\<close>: a list gives its elements, a str its characters (each a str), a dict
  its keys; \<^verbatim>\<open>None\<close>, a bool and an int are not iterable (\<^verbatim>\<open>TypeError\<close>).
\<close>

fun py_iter :: "pyval \<Rightarrow> exn + pyval list" where
  "py_iter (PList xs) = Inr xs"
| "py_iter (PStr s) = Inr (map (\<lambda>c. PStr [c]) s)"
| "py_iter (PDict kvs) = Inr (map (\<lambda>kv. PStr (fst kv)) kvs)"
| "py_iter PNone = Inl TypeError"
| "py_iter (PBool b) = Inl TypeError"
| "py_iter (PInt i) = Inl TypeError"

text \<open>Sequencing of steps that may raise: the first exception ends the block.\<close>

fun and_then :: "exn + 'a \<Rightarrow> ('a \<Rightarrow> exn + 'b) \<Rightarrow> exn + 'b" where
  "and_then (Inl e) f = Inl e"
| "and_then (Inr x) f = f x"

subsection \<open>Text: \<^verbatim>\<open>str\<close> of a value, and \<^verbatim>\<open>urllib.parse.quote\<close>\<close>

definition digit_char :: "nat \<Rightarrow> char" where
  "digit_char d = ''0123456789ABCDEF'' ! (d mod 16)"

fun show_nat :: "nat \<Rightarrow> string" where
  "show_nat n = (if n < 10 then [digit_char n] else show_nat (n div 10) @ [digit_char (n mod 10)])"

declare show_nat.simps [simp del]

definition show_int :: "int \<Rightarrow> string" where
  "show_int i = (if i < 0 then CHR ''-'' # show_nat (nat (- i)) else show_nat (nat i))"

text \<open>
  What an f-string puts for \<^verbatim>\<open>{v}\<close>: \<^verbatim>\<open>str(v)\<close>. For \<^verbatim>\<open>None\<close>, bools, ints and strs
  it is written out here. For a list or a dict Python prints the \<^verbatim>\<open>repr\<close> of the
  elements, whose quoting and escaping rules for text are not modelled: that rendering is
  the parameter \<open>container_repr\<close>.
\<close>

fun py_str :: "(pyval \<Rightarrow> string) \<Rightarrow> pyval \<Rightarrow> string" where
  "py_str container_repr PNone = ''None''"
| "py_str container_repr (PBool b) = (if b then ''True'' else ''False'')"
| "py_str container_repr (PInt i) = show_int i"
| "py_str container_repr (PStr s) = s"
| "py_str container_repr (PList xs) = container_repr (PList xs)"
| "py_str container_repr (PDict kvs) = container_repr (PDict kvs)"

text \<open>
  \<^verbatim>\<open>quote(s)\<close> with its default \<^verbatim>\<open>safe='/'\<close>: the bytes of the UTF-8 text that are
  letters, digits or one of \<^verbatim>\<open>_.-~/\<close> stay; every other byte becomes \<^verbatim>\<open>%XX\<close> in upper-case
  hexadecimal. An argument that is neither str nor bytes raises \<^verbatim>\<open>TypeError\<close>.
\<close>

definition always_safe :: "char list" where
  "always_safe = ''ABCDEFGHIJKLMNOPQRSTUVWXYZabcdefghijklmnopqrstuvwxyz0123456789_.-~''"

definition quote_byte :: "char \<Rightarrow> string" where
  "quote_byte c =
     (if c \<in> set always_safe \<or> c = CHR ''/'' then [c]
      else [CHR ''%'', digit_char (of_char c div 16), digit_char (of_char c mod 16)])"

definition quote_str :: "string \<Rightarrow> string" where
  "quote_str s = concat (map quote_byte s)"

fun quote :: "pyval \<Rightarrow> exn + string" where
  "quote (PStr s) = Inr (quote_str s)"
| "quote PNone = Inl TypeError"
| "quote (PBool b) = Inl TypeError"
| "quote (PInt i) = Inl TypeError"
| "quote (PList xs) = Inl TypeError"
| "quote (PDict kvs) = Inl TypeError"

section \<open>The world outside the process\<close>

text \<open>
  A reply of the HTTP library: the status code, the lookup of a header by name, and what
  \<^verbatim>\<open>response.json()\<close> gives (\<open>None\<close> when the body is not JSON, where the call raises
  a \<^verbatim>\<open>ValueError\<close>). \<open>Raised\<close> is a call of \<^verbatim>\<open>requests.get\<close> or \<^verbatim>\<open>requests.post\<close>
  that raises instead of returning.
\<close>

record response =
  status_code :: int
  header :: "string \<Rightarrow> string option"
  json_body :: "pyval option"

datatype http_outcome = Raised | Replied response

datatype http_request =
    POST string "(string \<times> string) list" "(string \<times> string) list"
  | GET string "(string \<times> string) list"

text \<open>
  The host answers every request (the answer may change from one tick to the next: tick 0
  is start-up, tick \<open>k\<close> the \<open>k\<close>-th cycle of the loop), says which paths can be opened for
  writing, and renders containers as text.
\<close>

record host =
  reply :: "nat \<Rightarrow> http_request \<Rightarrow> http_outcome"
  can_write :: "string \<Rightarrow> bool"
  container_repr :: "pyval \<Rightarrow> string"

text \<open>
  A file holds text written by \<^verbatim>\<open>write_output\<close>, or the \<^verbatim>\<open>json.dump\<close> of a value
  (the debug copy of the ladder).
\<close>

datatype file_content = Text string | JsonDump pyval

type_synonym fs = "string \<Rightarrow> file_content option"

text \<open>
  What the process does, in order: the line it prints, the requests it sends, the lines it
  logs at level INFO and above (one constructor for each \<^verbatim>\<open>logger\<close> call of the source,
  carrying the values the line interpolates), and its calls of \<^verbatim>\<open>time.sleep\<close> (in
  milliseconds: the source passes \<^verbatim>\<open>update / 1000\<close> seconds). DEBUG lines and tracebacks
  are left out.
\<close>

datatype log_level = INFO | WARNING | ERROR

datatype message =
    CredentialsRequired
  | TokenStatus int
  | TokenError exn
  | CheckingLadder string
  | NoToken
  | LeaguesStatus int
  | LeagueNotActive string
  | LeaguesError exn
  | RateLimited string
  | ApiStatus int
  | LeagueNotFound string
  | NoEntries
  | FoundCharacter string pyval pyval "string option"
  | CharacterNotFound string
  | JsonError
  | ApiError exn
  | Updated string
  | WroteEmpty
  | WriteError
  | NoOAuthToken
  | VisitDocs
  | RunWithParameters
  | Starting string
  | GameMode string string
  | UpdateInterval int string
  | Waiting int
  | Stopped
  | Unexpected exn

datatype event =
    Printed string
  | Sent http_request
  | Logged log_level message
  | Sleep int

section \<open>The program\<close>

subsection \<open>Command line (\<^verbatim>\<open>parse_arguments\<close>)\<close>

text \<open>
  The parsed arguments. \<^verbatim>\<open>--client-id\<close> and \<^verbatim>\<open>--client-secret\<close> have no default:
  they are \<^verbatim>\<open>None\<close> when not given.
\<close>

record args =
  character_name :: string
  gamemode :: string
  doth :: bool
  update :: int
  output_path :: string
  debug :: bool
  client_id :: "string option"
  client_secret :: "string option"

subsection \<open>\<^verbatim>\<open>get_oauth_token\<close>\<close>

definition token_url :: string where
  "token_url = ''https://www.pathofexile.com/oauth/token''"

definition user_agent :: string where
  "user_agent = ''OAuth PoE2-Ladder-Rank-Tracker/1.0.0 (contact: your-email@example.com)''"

definition token_request :: "string \<Rightarrow> string \<Rightarrow> http_request" where
  "token_request cid secret =
     POST token_url
       [(''Content-Type'', ''application/x-www-form-urlencoded''),
        (''User-Agent'', user_agent)]
       [(''client_id'', cid),
        (''client_secret'', secret),
        (''grant_type'', ''client_credentials''),
        (''scope'', ''service:leagues service:leagues:ladder'')]"

text \<open>
  The result is the access token, or \<open>PNone\<close> for the source's \<^verbatim>\<open>return None\<close>.
  \<^verbatim>\<open>token_data.get('access_token')\<close> gives \<^verbatim>\<open>None\<close> when the field is absent, and
  raises when the body is not a dict; every exception is caught and logged.
\<close>

definition get_oauth_token ::
  "host \<Rightarrow> string option \<Rightarrow> string option \<Rightarrow> event list \<times> pyval" where
  "get_oauth_token h cid secret =
     (case (cid, secret) of
        (Some c, Some s) \<Rightarrow>
          if c = [] \<or> s = [] then ([Logged ERROR CredentialsRequired], PNone)
          else
            (case reply h 0 (token_request c s) of
               Raised \<Rightarrow>
                 ([Sent (token_request c s), Logged ERROR (TokenError RequestException)], PNone)
             | Replied r \<Rightarrow>
                 if status_code r \<noteq> 200
                 then ([Sent (token_request c s), Logged ERROR (TokenStatus (status_code r))],
                       PNone)
                 else
                   (case json_body r of
                      None \<Rightarrow>
                        ([Sent (token_request c s), Logged ERROR (TokenError JSONDecodeError)],
                         PNone)
                    | Some token_data \<Rightarrow>
                        (case py_get token_data ''access_token'' PNone of
                           Inl e \<Rightarrow> ([Sent (token_request c s), Logged ERROR (TokenError e)], PNone)
                         | Inr tok \<Rightarrow> ([Sent (token_request c s)], tok))))
      | _ \<Rightarrow> ([Logged ERROR CredentialsRequired], PNone))"

subsection \<open>\<^verbatim>\<open>get_league_name\<close>\<close>

definition get_league_name :: "string \<Rightarrow> bool \<Rightarrow> string" where
  "get_league_name gm use_doth =
     (if use_doth then
        (if gm = ''standard'' then ''Dawn of the Hunt''
         else if gm = ''hc'' then ''HC Dawn of the Hunt''
         else if gm = ''ssf'' then ''SSF Dawn of the Hunt''
         else if gm = ''hcssf'' then ''HC SSF Dawn of the Hunt''
         else ''Unknown'')
      else
        (if gm = ''standard'' then ''Standard''
         else if gm = ''hc'' then ''Hardcore''
         else if gm = ''ssf'' then ''Solo Self-Found''
         else if gm = ''hcssf'' then ''Hardcore SSF''
         else ''Unknown''))"

subsection \<open>\<^verbatim>\<open>get_character_rank\<close>\<close>

definition base_url :: string where
  "base_url = ''https://api.pathofexile.com''"

definition api_headers :: "host \<Rightarrow> pyval \<Rightarrow> (string \<times> string) list" where
  "api_headers h access_token =
     [(''User-Agent'', user_agent),
      (''Accept'', ''application/json''),
      (''Authorization'', ''Bearer '' @ py_str (container_repr h) access_token)]"

definition leagues_request :: "host \<Rightarrow> pyval \<Rightarrow> http_request" where
  "leagues_request h access_token =
     GET (base_url @ ''/league?realm=poe2'') (api_headers h access_token)"

definition ladder_request :: "host \<Rightarrow> string \<Rightarrow> pyval \<Rightarrow> http_request" where
  "ladder_request h encoded_league access_token =
     GET (base_url @ ''/league/'' @ encoded_league @ ''/ladder?realm=poe2&limit=200'')
       (api_headers h access_token)"

text \<open>
  Lines 149 to 155: the scan of the league listing. The result is \<^verbatim>\<open>league_id\<close> after
  the loop: the \<^verbatim>\<open>id\<close> of the first league whose \<^verbatim>\<open>name\<close> is the wanted one, \<^verbatim>\<open>None\<close>
  when the loop ends without a \<^verbatim>\<open>break\<close>.
\<close>

fun find_league :: "pyval list \<Rightarrow> string \<Rightarrow> exn + pyval" where
  "find_league [] league_name = Inr PNone"
| "find_league (league # rest) league_name =
     and_then (py_get league ''name'' PNone) (\<lambda>n.
       if n = PStr league_name then py_get league ''id'' PNone
       else find_league rest league_name)"

text \<open>
  Lines 137 to 165, the inner \<^verbatim>\<open>try\<close>: either the function returns \<^verbatim>\<open>None\<close> there
  (\<open>ReturnNone\<close>), or it goes on with a \<^verbatim>\<open>league_id\<close>. The \<^verbatim>\<open>except Exception\<close> of this
  block is the only place where \<^verbatim>\<open>league_id = league_name\<close>.
\<close>

datatype lookup = ReturnNone | LeagueId pyval

definition leagues_scan :: "response \<Rightarrow> string \<Rightarrow> exn + pyval" where
  "leagues_scan r league_name =
     (case json_body r of
        None \<Rightarrow> Inl JSONDecodeError
      | Some leagues_data \<Rightarrow>
          and_then (py_get leagues_data ''leagues'' (PList [])) (\<lambda>leagues_list.
          and_then (py_iter leagues_list) (\<lambda>leagues. find_league leagues league_name)))"

definition fetch_league_id ::
  "host \<Rightarrow> nat \<Rightarrow> string \<Rightarrow> pyval \<Rightarrow> event list \<times> lookup" where
  "fetch_league_id h t league_name access_token =
     (case reply h t (leagues_request h access_token) of
        Raised \<Rightarrow>
          ([Sent (leagues_request h access_token), Logged ERROR (LeaguesError RequestException)],
           LeagueId (PStr league_name))
      | Replied r \<Rightarrow>
          if status_code r \<noteq> 200
          then ([Sent (leagues_request h access_token),
                 Logged ERROR (LeaguesStatus (status_code r))], ReturnNone)
          else
            (case leagues_scan r league_name of
               Inl e \<Rightarrow>
                 ([Sent (leagues_request h access_token), Logged ERROR (LeaguesError e)],
                  LeagueId (PStr league_name))
             | Inr league_id \<Rightarrow>
                 if \<not> truthy league_id
                 then ([Sent (leagues_request h access_token),
                        Logged ERROR (LeagueNotActive league_name)], ReturnNone)
                 else ([Sent (leagues_request h access_token)], LeagueId league_id)))"

text \<open>The dict that \<^verbatim>\<open>get_character_rank\<close> returns for a character it found.\<close>

record character_data =
  level :: pyval
  rank :: pyval
  status :: "string option"

text \<open>Lines 224 to 229: \<^verbatim>\<open>dead\<close> is looked at first, \<^verbatim>\<open>retired\<close> only when it is not set.\<close>

definition entry_status :: "pyval \<Rightarrow> exn + string option" where
  "entry_status character =
     and_then (py_get character ''dead'' (PBool False)) (\<lambda>dead.
       if truthy dead then Inr (Some ''DEAD'')
       else and_then (py_get character ''retired'' (PBool False)) (\<lambda>retired.
         if truthy retired then Inr (Some ''RETIRED'') else Inr None))"

text \<open>
  Lines 214 to 238: the scan of the ladder entries. \<open>Inr None\<close> is the end of the loop
  with no match; an entry (or its \<^verbatim>\<open>character\<close>) that is not a dict raises.
\<close>

fun search_entries :: "pyval list \<Rightarrow> string \<Rightarrow> exn + character_data option" where
  "search_entries [] name = Inr None"
| "search_entries (entry # rest) name =
     and_then (py_get entry ''character'' (PDict [])) (\<lambda>character.
     and_then (py_get character ''name'' (PStr [])) (\<lambda>entry_name.
       if entry_name = PStr name then
         and_then (py_get character ''level'' (PStr ''Unknown'')) (\<lambda>lv.
         and_then (py_get entry ''rank'' (PStr ''Unknown'')) (\<lambda>rk.
         and_then (entry_status character) (\<lambda>st.
           Inr (Some \<lparr>level = lv, rank = rk, status = st\<rparr>))))
       else search_entries rest name))"

text \<open>Lines 206 and 207: the path \<^verbatim>\<open>ladder.entries\<close> of the parsed reply.\<close>

definition ladder_entries :: "pyval \<Rightarrow> exn + pyval" where
  "ladder_entries ladder_data =
     and_then (py_get ladder_data ''ladder'' (PDict []))
       (\<lambda>ladder_obj. py_get ladder_obj ''entries'' (PList []))"

text \<open>
  Lines 195 to 250, the second inner \<^verbatim>\<open>try\<close>, entered with a reply of status 200. Its
  \<^verbatim>\<open>except ValueError\<close> catches the failure of \<^verbatim>\<open>response.json()\<close>; the other
  exceptions go to the outer handler of line 252. With debug logging the parsed ladder is
  first copied to \<^verbatim>\<open>ladder_debug.json\<close>, and a file that cannot be opened raises.
\<close>

definition read_ladder ::
  "host \<Rightarrow> bool \<Rightarrow> fs \<Rightarrow> response \<Rightarrow> string \<Rightarrow> event list \<times> fs \<times> character_data option" where
  "read_ladder h dbg files r name =
     (case json_body r of
        None \<Rightarrow> ([Logged ERROR JsonError], files, None)
      | Some ladder_data \<Rightarrow>
          if dbg \<and> \<not> can_write h ''ladder_debug.json''
          then ([Logged ERROR (ApiError OSError)], files, None)
          else
            (let files' = (if dbg then files(''ladder_debug.json'' \<mapsto> JsonDump ladder_data)
                           else files)
             in case ladder_entries ladder_data of
                  Inl e \<Rightarrow> ([Logged ERROR (ApiError e)], files', None)
                | Inr entries \<Rightarrow>
                    if \<not> truthy entries then ([Logged WARNING NoEntries], files', None)
                    else
                      (case and_then (py_iter entries) (\<lambda>es. search_entries es name) of
                         Inl e \<Rightarrow> ([Logged ERROR (ApiError e)], files', None)
                       | Inr None \<Rightarrow> ([Logged WARNING (CharacterNotFound name)], files', None)
                       | Inr (Some cd) \<Rightarrow>
                           ([Logged INFO (FoundCharacter name (rank cd) (level cd) (status cd))],
                            files', Some cd))))"

text \<open>
  Lines 168 to 193 and the call of the block above: the ladder request for a
  \<^verbatim>\<open>league_id\<close>, and the status checks on its reply.
\<close>

definition fetch_ladder ::
  "host \<Rightarrow> nat \<Rightarrow> bool \<Rightarrow> fs \<Rightarrow> string \<Rightarrow> string \<Rightarrow> pyval \<Rightarrow> pyval
     \<Rightarrow> event list \<times> fs \<times> character_data option" where
  "fetch_ladder h t dbg files league_name name access_token league_id =
     (case quote league_id of
        Inl e \<Rightarrow> ([Logged ERROR (ApiError e)], files, None)
      | Inr encoded_league \<Rightarrow>
          (case reply h t (ladder_request h encoded_league access_token) of
             Raised \<Rightarrow>
               ([Sent (ladder_request h encoded_league access_token),
                 Logged ERROR (ApiError RequestException)], files, None)
           | Replied r \<Rightarrow>
               if status_code r = 429
               then ([Sent (ladder_request h encoded_league access_token),
                      Logged WARNING (RateLimited
                        (case header r ''Retry-After'' of None \<Rightarrow> ''60'' | Some v \<Rightarrow> v))],
                     files, None)
               else if status_code r \<noteq> 200
               then (Sent (ladder_request h encoded_league access_token)
                       # Logged ERROR (ApiStatus (status_code r))
                       # (if status_code r = 404 then [Logged ERROR (LeagueNotFound league_name)]
                          else []),
                     files, None)
               else
                 (case read_ladder h dbg files r name of
                    (evs, files', res) \<Rightarrow>
                      (Sent (ladder_request h encoded_league access_token) # evs, files', res))))"

definition get_character_rank ::
  "host \<Rightarrow> nat \<Rightarrow> bool \<Rightarrow> fs \<Rightarrow> string \<Rightarrow> string \<Rightarrow> pyval
     \<Rightarrow> event list \<times> fs \<times> character_data option" where
  "get_character_rank h t dbg files league_name name access_token =
     (if \<not> truthy access_token
      then ([Logged INFO (CheckingLadder league_name), Logged ERROR NoToken], files, None)
      else
        (case fetch_league_id h t league_name access_token of
           (evs, ReturnNone) \<Rightarrow> (Logged INFO (CheckingLadder league_name) # evs, files, None)
         | (evs, LeagueId league_id) \<Rightarrow>
             (case fetch_ladder h t dbg files league_name name access_token league_id of
                (evs', files', res) \<Rightarrow>
                  (Logged INFO (CheckingLadder league_name) # evs @ evs', files', res))))"

subsection \<open>\<^verbatim>\<open>write_output\<close>\<close>

text \<open>
  \<^verbatim>\<open>character_data.get('status')\<close> is tested for truth: an empty status string would
  count as none. Opening the file truncates it; a file that cannot be opened is left as
  it was, and the error is logged.
\<close>

definition format_line :: "host \<Rightarrow> character_data \<Rightarrow> string \<Rightarrow> string" where
  "format_line h cd ladder_name =
     (case status cd of
        Some st \<Rightarrow>
          if st \<noteq> [] then
            ''Level: '' @ py_str (container_repr h) (level cd) @ '' | Rank: ['' @ st @ ''] ''
              @ py_str (container_repr h) (rank cd) @ '' | '' @ ladder_name
          else
            ''Level: '' @ py_str (container_repr h) (level cd) @ '' | Rank: ''
              @ py_str (container_repr h) (rank cd) @ '' | '' @ ladder_name
      | None \<Rightarrow>
          ''Level: '' @ py_str (container_repr h) (level cd) @ '' | Rank: ''
            @ py_str (container_repr h) (rank cd) @ '' | '' @ ladder_name)"

definition write_output ::
  "host \<Rightarrow> fs \<Rightarrow> string \<Rightarrow> character_data option \<Rightarrow> string \<Rightarrow> event list \<times> fs" where
  "write_output h files output_file res ladder_name =
     (case res of
        Some cd \<Rightarrow>
          if can_write h output_file
          then ([Logged INFO (Updated (format_line h cd ladder_name))],
                files(output_file \<mapsto> Text (format_line h cd ladder_name)))
          else ([Logged ERROR WriteError], files)
      | None \<Rightarrow>
          if can_write h output_file
          then ([Logged INFO WroteEmpty], files(output_file \<mapsto> Text []))
          else ([Logged ERROR WriteError], files))"

subsection \<open>\<^verbatim>\<open>main\<close>\<close>

definition disclaimer :: string where
  "disclaimer =
     ''This product isn't affiliated with or endorsed by Grinding Gear Games in any way.''"

text \<open>
  Lines 319 to 323, one pass of the loop body at tick \<open>t\<close>. \<^verbatim>\<open>time.sleep\<close> raises a
  \<^verbatim>\<open>ValueError\<close> on a negative length, which the handler of line 326 logs before
  \<^verbatim>\<open>main\<close> returns: the last component says whether the loop goes on.
\<close>

definition cycle ::
  "host \<Rightarrow> nat \<Rightarrow> args \<Rightarrow> string \<Rightarrow> pyval \<Rightarrow> fs \<Rightarrow> event list \<times> fs \<times> bool" where
  "cycle h t a league_name access_token files =
     (case get_character_rank h t (debug a) files league_name (character_name a) access_token of
        (evs, files', res) \<Rightarrow>
          (case write_output h files' (output_path a) res league_name of
             (evs', files'') \<Rightarrow>
               (evs @ evs' @ [Logged INFO (Waiting (update a)), Sleep (update a)]
                  @ (if update a < 0 then [Logged ERROR (Unexpected ValueError)] else []),
                files'', 0 \<le> update a)))"

text \<open>
  The loop of line 318 has no exit of its own: it ends when the operator interrupts it.
  \<open>n\<close> is the number of passes that complete before the interrupt, which is taken to
  arrive between two passes.
\<close>

fun poll ::
  "host \<Rightarrow> nat \<Rightarrow> nat \<Rightarrow> args \<Rightarrow> string \<Rightarrow> pyval \<Rightarrow> fs \<Rightarrow> event list \<times> fs" where
  "poll h t 0 a league_name access_token files = ([Logged INFO Stopped], files)"
| "poll h t (Suc n) a league_name access_token files =
     (case cycle h t a league_name access_token files of
        (evs, files', goes_on) \<Rightarrow>
          if goes_on then
            (case poll h (Suc t) n a league_name access_token files' of
               (evs', files'') \<Rightarrow> (evs @ evs', files''))
          else (evs, files'))"

definition main :: "host \<Rightarrow> args \<Rightarrow> fs \<Rightarrow> nat \<Rightarrow> event list \<times> fs" where
  "main h a files n =
     (case get_oauth_token h (client_id a) (client_secret a) of
        (evs, access_token) \<Rightarrow>
          if \<not> truthy access_token
          then (Printed disclaimer # evs
                  @ [Logged ERROR NoOAuthToken, Logged ERROR VisitDocs,
                     Logged ERROR RunWithParameters], files)
          else
            (case poll h 1 n a (get_league_name (gamemode a) (doth a)) access_token files of
               (evs', files') \<Rightarrow>
                 (Printed disclaimer # evs
                    @ [Logged INFO (Starting (character_name a)),
                       Logged INFO (GameMode (gamemode a)
                         (get_league_name (gamemode a) (doth a))),
                       Logged INFO (UpdateInterval (update a) (output_path a))]
                    @ evs', files')))"

section \<open>Vocabulary of the properties\<close>

text \<open>
  The test of line 219 on one entry, where it can be made: the entry is a dict, its
  \<^verbatim>\<open>character\<close> (an empty dict when absent) is a dict, and the \<^verbatim>\<open>name\<close> found there
  (the empty text when absent) is the tracked name. \<open>other_entry\<close> is an entry on which
  the test can be made and fails, so that the scan moves on to the next one.
\<close>

definition entry_name :: "pyval \<Rightarrow> exn + pyval" where
  "entry_name entry =
     and_then (py_get entry ''character'' (PDict [])) (\<lambda>c. py_get c ''name'' (PStr []))"

definition entry_named :: "pyval \<Rightarrow> string \<Rightarrow> bool" where
  "entry_named entry name = (entry_name entry = Inr (PStr name))"

definition other_entry :: "pyval \<Rightarrow> string \<Rightarrow> bool" where
  "other_entry entry name =
     (case entry_name entry of Inl e \<Rightarrow> False | Inr n \<Rightarrow> n \<noteq> PStr name)"

text \<open>The same for one league of the listing (line 153).\<close>

definition other_league :: "pyval \<Rightarrow> string \<Rightarrow> bool" where
  "other_league league league_name =
     (case py_get league ''name'' PNone of Inl e \<Rightarrow> False | Inr n \<Rightarrow> n \<noteq> PStr league_name)"

text \<open>
  The first \<^verbatim>\<open>try\<close> block (lines 137 to 159) raises: the request itself, the parsing of
  the body, or the walk through a body of another shape.
\<close>

definition listing_raises :: "host \<Rightarrow> nat \<Rightarrow> string \<Rightarrow> pyval \<Rightarrow> bool" where
  "listing_raises h t league_name access_token =
     (case reply h t (leagues_request h access_token) of
        Raised \<Rightarrow> True
      | Replied r \<Rightarrow> status_code r = 200 \<and> isl (leagues_scan r league_name))"

text \<open>
  The listing is read without an exception and its scan (lines 152 to 155) ends with no
  \<^verbatim>\<open>break\<close>: every league of the list is a dict whose \<^verbatim>\<open>name\<close> is not the wanted one.
\<close>

definition listing_finds_none :: "response \<Rightarrow> string \<Rightarrow> bool" where
  "listing_finds_none r league_name =
     (status_code r = 200 \<and>
      (case json_body r of
         None \<Rightarrow> False
       | Some d \<Rightarrow>
           (case and_then (py_get d ''leagues'' (PList [])) py_iter of
              Inl e \<Rightarrow> False
            | Inr leagues \<Rightarrow> list_all (\<lambda>league. other_league league league_name) leagues)))"

text \<open>
  The two line formats as the specification documents them (section 4.5), for a level and
  a rank already rendered as text.
\<close>

fun documented_line :: "string option \<Rightarrow> string \<Rightarrow> string \<Rightarrow> string \<Rightarrow> string" where
  "documented_line None lv rk bracket = ''Level: '' @ lv @ '' | Rank: '' @ rk @ '' | '' @ bracket"
| "documented_line (Some st) lv rk bracket =
     ''Level: '' @ lv @ '' | Rank: ['' @ st @ ''] '' @ rk @ '' | '' @ bracket"


text \<open>The failures of one cycle that the ladder reply can show.\<close>

datatype failure =
    RateLimit
  | InvalidBracket
  | OtherStatus
  | MalformedJson
  | EmptyList
  | NoMatch

fun shows_failure :: "failure \<Rightarrow> response \<Rightarrow> string \<Rightarrow> bool" where
  "shows_failure RateLimit r name = (status_code r = 429)"
| "shows_failure InvalidBracket r name = (status_code r = 404)"
| "shows_failure OtherStatus r name = (status_code r \<noteq> 200)"
| "shows_failure MalformedJson r name = (status_code r = 200 \<and> json_body r = None)"
| "shows_failure EmptyList r name =
     (status_code r = 200 \<and>
      (case json_body r of
         None \<Rightarrow> False
       | Some d \<Rightarrow> (case ladder_entries d of Inl e \<Rightarrow> False | Inr es \<Rightarrow> \<not> truthy es)))"
| "shows_failure NoMatch r name =
     (status_code r = 200 \<and>
      (case json_body r of
         None \<Rightarrow> False
       | Some d \<Rightarrow>
           (case and_then (ladder_entries d) py_iter of
              Inl e \<Rightarrow> False
            | Inr es \<Rightarrow> \<not> list_ex (\<lambda>entry. entry_named entry name) es)))"

subsection \<open>Reference inputs\<close>

definition json_reply :: "int \<Rightarrow> pyval \<Rightarrow> http_outcome" where
  "json_reply code v = Replied \<lparr>status_code = code, header = (\<lambda>k. None), json_body = Some v\<rparr>"

definition plain_reply :: "int \<Rightarrow> (string \<times> string) list \<Rightarrow> http_outcome" where
  "plain_reply code hs = Replied \<lparr>status_code = code, header = map_of hs, json_body = None\<rparr>"

text \<open>
  A host that gives the first outcome to the token request, the second to the league
  listing and the third to any other GET, at every tick; every path can be written.
\<close>

definition scripted :: "http_outcome \<Rightarrow> http_outcome \<Rightarrow> http_outcome \<Rightarrow> host" where
  "scripted token leagues ladder =
     \<lparr>reply = (\<lambda>t req.
        case req of
          POST url hs form \<Rightarrow> token
        | GET url hs \<Rightarrow> if url = base_url @ ''/league?realm=poe2'' then leagues else ladder),
      can_write = (\<lambda>p. True),
      container_repr = (\<lambda>v. ''...'')\<rparr>"

definition tracker_args :: args where
  "tracker_args =
     \<lparr>character_name = ''Hero'', gamemode = ''standard'', doth = False, update = 60000,
      output_path = ''poe2_rank.txt'', debug = False,
      client_id = Some ''id'', client_secret = Some ''secret''\<rparr>"

definition standard_listing :: pyval where
  "standard_listing =
     PDict [(''leagues'', PList [PDict [(''id'', PStr ''Standard''), (''name'', PStr ''Standard'')],
                                PDict [(''id'', PStr ''Hardcore''), (''name'', PStr ''Hardcore'')]])]"

definition hero_entry :: pyval where
  "hero_entry =
     PDict [(''rank'', PInt 5),
            (''character'', PDict [(''name'', PStr ''Hero''), (''level'', PInt 92)])]"

definition rival_entry :: pyval where
  "rival_entry =
     PDict [(''rank'', PInt 1),
            (''dead'', PBool False),
            (''character'', PDict [(''name'', PStr ''Rival''), (''level'', PInt 100),
                                   (''dead'', PBool True)])]"

definition veteran_entry :: pyval where
  "veteran_entry =
     PDict [(''rank'', PInt 7),
            (''character'', PDict [(''name'', PStr ''Veteran''), (''dead'', PBool False),
                                   (''retired'', PBool True)])]"

definition ladder_of :: "pyval list \<Rightarrow> pyval" where
  "ladder_of entries = PDict [(''ladder'', PDict [(''total'', PInt 2), (''entries'', PList entries)])]"

section \<open>Supporting lemmas\<close>

subsection \<open>The scan of the ladder entries\<close>

lemma search_entries_skip:
  "list_all (\<lambda>p. other_entry p name) pre \<Longrightarrow>
   search_entries (pre @ rest) name = search_entries rest name"
proof (induction pre)
  case Nil
  then show ?case by simp
next
  case (Cons p pre)
  then show ?case
    by (cases p) (auto simp: other_entry_def entry_name_def split: sum.splits)
qed

lemma search_entries_hit:
  assumes "map_of entry ''character'' = Some (PDict ch)"
    and "map_of ch ''name'' = Some (PStr name)"
  shows "search_entries (PDict entry # post) name =
     Inr (Some \<lparr>level = dict_get ch ''level'' (PStr ''Unknown''),
                rank = dict_get entry ''rank'' (PStr ''Unknown''),
                status = (if truthy (dict_get ch ''dead'' (PBool False)) then Some ''DEAD''
                          else if truthy (dict_get ch ''retired'' (PBool False)) then Some ''RETIRED''
                          else None)\<rparr>)"
  using assms by (simp add: dict_get_def entry_status_def)

lemma search_entries_found:
  "search_entries es name = Inr (Some cd) \<Longrightarrow>
   list_ex (\<lambda>entry. entry_named entry name) es \<and>
   status cd \<in> {None, Some ''DEAD'', Some ''RETIRED''}"
proof (induction es)
  case Nil
  then show ?case by simp
next
  case (Cons e es)
  show ?case
  proof (cases "entry_named e name")
    case True
    then obtain ekv ch where e: "e = PDict ekv" and c: "dict_get ekv ''character'' (PDict []) = PDict ch"
      and n: "dict_get ch ''name'' (PStr []) = PStr name"
      apply (cases e; simp add: entry_named_def entry_name_def)
      subgoal for kvs by (cases "dict_get kvs ''character'' (PDict [])"; simp)
      done
    from Cons.prems e c n have "status cd \<in> {None, Some ''DEAD'', Some ''RETIRED''}"
      by (auto simp: entry_status_def split: if_splits)
    with True show ?thesis by simp
  next
    case False
    then have "search_entries (e # es) name = Inr (Some cd) \<Longrightarrow> search_entries es name = Inr (Some cd)"
      apply (cases e; simp add: entry_named_def entry_name_def)
      subgoal for kvs
        by (cases "dict_get kvs ''character'' (PDict [])"; simp split: if_splits)
      done
    with Cons show ?thesis by simp
  qed
qed

subsection \<open>From the scan to the result of \<^verbatim>\<open>get_character_rank\<close>\<close>

lemma read_ladder_found:
  assumes "read_ladder h dbg files r name = (evs, files', Some cd)"
  shows "\<exists>d es. json_body r = Some d \<and> and_then (ladder_entries d) py_iter = Inr es \<and>
           search_entries es name = Inr (Some cd)"
proof -
  from assms obtain d where d: "json_body r = Some d"
    by (cases "json_body r") (auto simp: read_ladder_def)
  from assms d obtain ev where ev: "ladder_entries d = Inr ev"
    by (cases "ladder_entries d") (auto simp: read_ladder_def Let_def split: if_splits)
  from assms d ev obtain es where es: "py_iter ev = Inr es"
    by (cases "py_iter ev") (auto simp: read_ladder_def Let_def split: if_splits)
  from assms d ev es have "search_entries es name = Inr (Some cd)"
    by (auto simp: read_ladder_def Let_def split: if_splits sum.splits option.splits)
  with d ev es show ?thesis by simp
qed

lemma read_ladder_failure:
  assumes "status_code r = 200"
    and "shows_failure f r name"
  shows "snd (snd (read_ladder h dbg files r name)) = None"
proof (cases "snd (snd (read_ladder h dbg files r name))")
  case None
  then show ?thesis .
next
  case (Some cd)
  then obtain evs files' where "read_ladder h dbg files r name = (evs, files', Some cd)"
    by (cases "read_ladder h dbg files r name") auto
  note found = this read_ladder_found [OF this]
  then obtain d es where d: "json_body r = Some d"
    and es: "and_then (ladder_entries d) py_iter = Inr es"
    and s: "search_entries es name = Inr (Some cd)" by blast
  from s have ex: "list_ex (\<lambda>entry. entry_named entry name) es"
    by (simp add: search_entries_found)
  from es obtain ev where ev: "ladder_entries d = Inr ev" "py_iter ev = Inr es"
    by (cases "ladder_entries d") auto
  from found(1) d ev have tr: "truthy ev"
    by (auto simp: read_ladder_def Let_def split: if_splits)
  from assms d ev ex tr es show ?thesis
    by (cases f) auto
qed

lemma fetch_ladder_failure:
  assumes "quote league_id = Inr enc"
    and "reply h t (ladder_request h enc tok) = Replied r"
    and "shows_failure f r name"
  shows "snd (snd (fetch_ladder h t dbg files league_name name tok league_id)) = None"
proof (cases "status_code r = 200")
  case True
  from read_ladder_failure [OF True assms(3), of h dbg files] assms(1,2) True
  show ?thesis
    by (cases "read_ladder h dbg files r name") (auto simp: fetch_ladder_def)
next
  case False
  with assms(1,2) show ?thesis
    by (auto simp: fetch_ladder_def)
qed

lemma fetch_ladder_match:
  assumes "quote league_id = Inr enc"
    and "reply h t (ladder_request h enc tok) = Replied r"
    and "status_code r = 200"
    and "json_body r = Some d"
    and "ladder_entries d = Inr (PList (pre @ PDict entry # post))"
    and "list_all (\<lambda>p. other_entry p name) pre"
    and "map_of entry ''character'' = Some (PDict ch)"
    and "map_of ch ''name'' = Some (PStr name)"
    and "dbg \<longrightarrow> can_write h ''ladder_debug.json''"
  shows "snd (snd (fetch_ladder h t dbg files league_name name tok league_id)) =
     Some \<lparr>level = dict_get ch ''level'' (PStr ''Unknown''),
           rank = dict_get entry ''rank'' (PStr ''Unknown''),
           status = (if truthy (dict_get ch ''dead'' (PBool False)) then Some ''DEAD''
                     else if truthy (dict_get ch ''retired'' (PBool False)) then Some ''RETIRED''
                     else None)\<rparr>"
proof -
  have scan: "search_entries (pre @ PDict entry # post) name =
     Inr (Some \<lparr>level = dict_get ch ''level'' (PStr ''Unknown''),
                rank = dict_get entry ''rank'' (PStr ''Unknown''),
                status = (if truthy (dict_get ch ''dead'' (PBool False)) then Some ''DEAD''
                          else if truthy (dict_get ch ''retired'' (PBool False)) then Some ''RETIRED''
                          else None)\<rparr>)"
    using search_entries_skip [OF assms(6)] search_entries_hit [OF assms(7,8)] by simp
  have "snd (snd (read_ladder h dbg files r name)) =
     Some \<lparr>level = dict_get ch ''level'' (PStr ''Unknown''),
           rank = dict_get entry ''rank'' (PStr ''Unknown''),
           status = (if truthy (dict_get ch ''dead'' (PBool False)) then Some ''DEAD''
                     else if truthy (dict_get ch ''retired'' (PBool False)) then Some ''RETIRED''
                     else None)\<rparr>"
    using assms(4,5,9) scan by (simp add: read_ladder_def Let_def)
  with assms(1,2,3) show ?thesis
    by (cases "read_ladder h dbg files r name") (simp add: fetch_ladder_def)
qed

lemma fetch_ladder_sends:
  "Sent (ladder_request h (quote_str s) tok)
     \<in> set (fst (fetch_ladder h t dbg files league_name name tok (PStr s)))"
  by (cases "reply h t (ladder_request h (quote_str s) tok)")
     (auto simp: fetch_ladder_def split: prod.splits)

lemma get_character_rank_ladder:
  assumes "truthy tok"
    and "fetch_league_id h t league_name tok = (evs, LeagueId league_id)"
  shows "get_character_rank h t dbg files league_name name tok =
     (case fetch_ladder h t dbg files league_name name tok league_id of
        (evs', files', res) \<Rightarrow>
          (Logged INFO (CheckingLadder league_name) # evs @ evs', files', res))"
  using assms by (simp add: get_character_rank_def)

lemma get_character_rank_result:
  assumes "truthy tok"
    and "fetch_league_id h t league_name tok = (evs, LeagueId league_id)"
  shows "snd (snd (get_character_rank h t dbg files league_name name tok)) =
         snd (snd (fetch_ladder h t dbg files league_name name tok league_id))"
  using assms
  by (cases "fetch_ladder h t dbg files league_name name tok league_id")
     (simp add: get_character_rank_def)

lemma get_character_rank_found:
  assumes "get_character_rank h t dbg files league_name name tok = (evs, files', Some cd)"
  shows "status cd \<in> {None, Some ''DEAD'', Some ''RETIRED''}"
proof -
  from assms obtain lid e2 where "fetch_ladder h t dbg files league_name name tok lid = (e2, files', Some cd)"
    by (auto simp: get_character_rank_def split: if_splits prod.splits lookup.splits)
  then obtain r e3 where "read_ladder h dbg files r name = (e3, files', Some cd)"
    by (auto simp: fetch_ladder_def split: sum.splits http_outcome.splits if_splits prod.splits)
  from read_ladder_found [OF this] show ?thesis
    using search_entries_found by blast
qed

subsection \<open>The league listing\<close>

lemma find_league_none:
  "list_all (\<lambda>league. other_league league league_name) leagues \<Longrightarrow>
   find_league leagues league_name = Inr PNone"
proof (induction leagues)
  case Nil
  then show ?case by simp
next
  case (Cons l ls)
  then show ?case
    by (cases "py_get l ''name'' PNone") (auto simp: other_league_def)
qed

lemma fetch_league_id_none:
  assumes "reply h t (leagues_request h tok) = Replied r"
    and "listing_finds_none r league_name"
  shows "fetch_league_id h t league_name tok =
     ([Sent (leagues_request h tok), Logged ERROR (LeagueNotActive league_name)], ReturnNone)"
proof -
  from assms(2) obtain d ls where ok: "status_code r = 200" and d: "json_body r = Some d"
    and ls: "and_then (py_get d ''leagues'' (PList [])) py_iter = Inr ls"
    and all: "list_all (\<lambda>league. other_league league league_name) ls"
    by (auto simp: listing_finds_none_def split: option.splits sum.splits)
  from ls obtain lv where lv: "py_get d ''leagues'' (PList []) = Inr lv" "py_iter lv = Inr ls"
    by (cases "py_get d ''leagues'' (PList [])") auto
  have "leagues_scan r league_name = Inr PNone"
    using d lv find_league_none [OF all] by (simp add: leagues_scan_def)
  with assms(1) ok show ?thesis by (simp add: fetch_league_id_def)
qed

lemma fetch_league_id_raises:
  assumes "listing_raises h t league_name tok"
  shows "\<exists>e. fetch_league_id h t league_name tok =
     ([Sent (leagues_request h tok), Logged ERROR (LeaguesError e)], LeagueId (PStr league_name))"
  using assms
  by (auto simp: listing_raises_def fetch_league_id_def isl_def split: http_outcome.splits)

subsection \<open>One pass of the loop\<close>



lemma cycle_no_result:
  assumes "get_character_rank h t (debug a) files league_name (character_name a) tok =
             (evs, files', None)"
    and "can_write h (output_path a)"
  shows "cycle h t a league_name tok files =
     (evs @ [Logged INFO WroteEmpty, Logged INFO (Waiting (update a)), Sleep (update a)]
        @ (if update a < 0 then [Logged ERROR (Unexpected ValueError)] else []),
      files'(output_path a \<mapsto> Text []), 0 \<le> update a)"
  using assms by (simp add: cycle_def write_output_def)

subsection \<open>The reference inputs, evaluated\<close>

lemmas request_defs =
  leagues_request_def ladder_request_def api_headers_def base_url_def user_agent_def

lemmas sample_defs =
  scripted_def json_reply_def plain_reply_def standard_listing_def ladder_of_def
  hero_entry_def rival_entry_def veteran_entry_def

lemma quote_str_standard: "quote_str ''Standard'' = ''Standard''"
  by (simp add: quote_str_def quote_byte_def always_safe_def)

lemma quote_standard: "quote (PStr ''Standard'') = Inr ''Standard''"
  by (simp add: quote_str_standard)

lemma sample_lookup:
  "fetch_league_id (scripted tk (json_reply 200 standard_listing) ld) t ''Standard'' (PStr ''tok'') =
     ([Sent (leagues_request (scripted tk (json_reply 200 standard_listing) ld) (PStr ''tok''))],
      LeagueId (PStr ''Standard''))"
  by (simp add: fetch_league_id_def leagues_scan_def sample_defs request_defs dict_get_def)

lemma sample_leagues_reply:
  "reply (scripted tk ls ld) t (leagues_request (scripted tk ls ld) tok) = ls"
  by (simp add: sample_defs request_defs)

lemma sample_ladder_reply:
  "reply (scripted tk ls ld) t (ladder_request (scripted tk ls ld) ''Standard'' tok) = ld"
  by (simp add: sample_defs request_defs)

lemma sample_found:
  "get_character_rank
     (scripted Raised (json_reply 200 standard_listing)
        (json_reply 200 (ladder_of [rival_entry, hero_entry, veteran_entry])))
     1 False Map.empty ''Standard'' ''Rival'' (PStr ''tok'') =
   ([Logged INFO (CheckingLadder ''Standard''),
     Sent (leagues_request (scripted Raised (json_reply 200 standard_listing)
        (json_reply 200 (ladder_of [rival_entry, hero_entry, veteran_entry]))) (PStr ''tok'')),
     Sent (ladder_request (scripted Raised (json_reply 200 standard_listing)
        (json_reply 200 (ladder_of [rival_entry, hero_entry, veteran_entry]))) ''Standard''
        (PStr ''tok'')),
     Logged INFO (FoundCharacter ''Rival'' (PInt 1) (PInt 100) (Some ''DEAD''))],
    Map.empty,
    Some \<lparr>level = PInt 100, rank = PInt 1, status = Some ''DEAD''\<rparr>)"
  apply (simp add: get_character_rank_def sample_lookup fetch_ladder_def quote_str_standard
      sample_ladder_reply)
  apply (simp add: json_reply_def read_ladder_def ladder_entries_def ladder_of_def dict_get_def
      rival_entry_def entry_status_def)
  done

lemma tracker_fields:
  "character_name tracker_args = ''Hero''" "debug tracker_args = False"
  "output_path tracker_args = ''poe2_rank.txt''" "update tracker_args = 60000"
  "client_id tracker_args = Some ''id''" "client_secret tracker_args = Some ''secret''"
  "gamemode tracker_args = ''standard''" "doth tracker_args = False"
  by (simp_all add: tracker_args_def)

lemma scripted_can_write: "can_write (scripted tk ls ld) p"
  by (simp add: scripted_def)

section \<open>Bracket Resolver\<close>

text \<open>
  C5. For each of the four modes \<^verbatim>\<open>standard\<close>, \<^verbatim>\<open>hc\<close>, \<^verbatim>\<open>ssf\<close>, \<^verbatim>\<open>hcssf\<close> and each
  value of the variant flag, \<^verbatim>\<open>get_league_name\<close> returns the documented name: the four
  Dawn of the Hunt names with the flag, the four permanent names without it.
\<close>

theorem resolver_table:
  "get_league_name ''standard'' True = ''Dawn of the Hunt'' \<and>
   get_league_name ''hc'' True = ''HC Dawn of the Hunt'' \<and>
   get_league_name ''ssf'' True = ''SSF Dawn of the Hunt'' \<and>
   get_league_name ''hcssf'' True = ''HC SSF Dawn of the Hunt'' \<and>
   get_league_name ''standard'' False = ''Standard'' \<and>
   get_league_name ''hc'' False = ''Hardcore'' \<and>
   get_league_name ''ssf'' False = ''Solo Self-Found'' \<and>
   get_league_name ''hcssf'' False = ''Hardcore SSF''"
  by (simp add: get_league_name_def)

text \<open>
  C10. \<^verbatim>\<open>get_league_name\<close> is defined on every text: a mode that is none of the four
  recognised ones gives \<^verbatim>\<open>"Unknown"\<close>, with and without the variant flag, and nothing is
  raised (the function has no failing branch).
\<close>

theorem resolver_unknown:
  "gm \<notin> {''standard'', ''hc'', ''ssf'', ''hcssf''} \<Longrightarrow> get_league_name gm use_doth = ''Unknown''"
  by (simp add: get_league_name_def)

theorem resolver_unknown_witness:
  "''hardcore'' \<notin> {''standard'', ''hc'', ''ssf'', ''hcssf''} \<and>
   get_league_name ''hardcore'' True = ''Unknown'' \<and>
   get_league_name ''hardcore'' False = ''Unknown''"
  using resolver_unknown [of "''hardcore''" True] resolver_unknown [of "''hardcore''" False]
  by simp

section \<open>Token Acquirer\<close>

text \<open>
  C6. When the client id or the client secret is absent or empty, \<^verbatim>\<open>get_oauth_token\<close>
  returns \<^verbatim>\<open>None\<close> at once: its whole activity is the one error line, and no request is
  sent.
\<close>

theorem token_needs_credentials:
  "cid = None \<or> cid = Some [] \<or> secret = None \<or> secret = Some [] \<Longrightarrow>
   get_oauth_token h cid secret = ([Logged ERROR CredentialsRequired], PNone) \<and>
   (\<forall>req. Sent req \<notin> set (fst (get_oauth_token h cid secret)))"
  by (auto simp: get_oauth_token_def split: option.splits)

theorem token_needs_credentials_witness:
  "get_oauth_token (scripted (json_reply 200 (PDict [(''access_token'', PStr ''t'')])) Raised Raised)
     None (Some ''secret'') = ([Logged ERROR CredentialsRequired], PNone) \<and>
   get_oauth_token (scripted (json_reply 200 (PDict [(''access_token'', PStr ''t'')])) Raised Raised)
     (Some ''id'') (Some []) = ([Logged ERROR CredentialsRequired], PNone)"
  using
    token_needs_credentials [of None "Some ''secret''"
      "scripted (json_reply 200 (PDict [(''access_token'', PStr ''t'')])) Raised Raised"]
    token_needs_credentials [of "Some ''id''" "Some []"
      "scripted (json_reply 200 (PDict [(''access_token'', PStr ''t'')])) Raised Raised"]
  by simp

text \<open>
  C9. A token reply of status 200 whose JSON body holds an \<^verbatim>\<open>access_token\<close> that is the
  empty text is a failure, exactly as a body without that field: with both credentials
  given, \<^verbatim>\<open>main\<close> sends the token request, logs its three fatal lines and returns. No
  pass of the loop runs, whatever the number of passes the operator would have allowed, and
  no file is touched.
\<close>

theorem empty_token_is_fatal:
  assumes "client_id a = Some c" and "c \<noteq> []"
    and "client_secret a = Some s" and "s \<noteq> []"
    and "reply h 0 (token_request c s) = Replied r"
    and "status_code r = 200"
    and "json_body r = Some (PDict kvs)"
    and "map_of kvs ''access_token'' = Some (PStr []) \<or> map_of kvs ''access_token'' = None"
  shows "main h a files n =
     ([Printed disclaimer, Sent (token_request c s), Logged ERROR NoOAuthToken,
       Logged ERROR VisitDocs, Logged ERROR RunWithParameters], files)"
  using assms by (auto simp: main_def get_oauth_token_def dict_get_def)

theorem empty_token_is_fatal_witness:
  "main (scripted (json_reply 200 (PDict [(''access_token'', PStr []), (''expires_in'', PNone)]))
           (json_reply 200 standard_listing) (json_reply 200 (ladder_of [hero_entry])))
     tracker_args Map.empty 3 =
     ([Printed disclaimer, Sent (token_request ''id'' ''secret''), Logged ERROR NoOAuthToken,
       Logged ERROR VisitDocs, Logged ERROR RunWithParameters], Map.empty) \<and>
   main (scripted (json_reply 200 (PDict [(''expires_in'', PNone)]))
           (json_reply 200 standard_listing) (json_reply 200 (ladder_of [hero_entry])))
     tracker_args Map.empty 3 =
     ([Printed disclaimer, Sent (token_request ''id'' ''secret''), Logged ERROR NoOAuthToken,
       Logged ERROR VisitDocs, Logged ERROR RunWithParameters], Map.empty)"
proof -
  have rep: "reply (scripted (json_reply 200 v) ls ld) 0 (token_request ''id'' ''secret'') =
      Replied \<lparr>status_code = 200, header = (\<lambda>k. None), json_body = Some v\<rparr>" for v ls ld
    by (simp add: scripted_def token_request_def json_reply_def)
  have ne: "''id'' \<noteq> []" "''secret'' \<noteq> []" by simp_all
  have a: "map_of [(''access_token'', PStr []), (''expires_in'', PNone)] ''access_token'' = Some (PStr []) \<or>
           map_of [(''access_token'', PStr []), (''expires_in'', PNone)] ''access_token'' = None"
    by simp
  have b: "map_of [(''expires_in'', PNone)] ''access_token'' = Some (PStr []) \<or>
           map_of [(''expires_in'', PNone)] ''access_token'' = None"
    by simp
  from empty_token_is_fatal [OF tracker_fields(5) ne(1) tracker_fields(6) ne(2) rep _ _ a,
      where files = Map.empty and n = 3]
    empty_token_is_fatal [OF tracker_fields(5) ne(1) tracker_fields(6) ne(2) rep _ _ b,
      where files = Map.empty and n = 3]
  show ?thesis by simp
qed

section \<open>Bracket Lookup\<close>

text \<open>
  C1, as the code has it. The display name becomes the identifier, and the ladder request
  is sent with it, when the first \<^verbatim>\<open>try\<close> block raises: the request raises, the body is
  not JSON, or the body has another shape than a dict with a list of dicts. When the
  listing answers with a status other than 200, and when it is read and its scan finds no
  league of that name, \<^verbatim>\<open>get_character_rank\<close> logs the error and returns \<^verbatim>\<open>None\<close>
  there: the league request is the only one sent.
\<close>

theorem lookup_fallback_only_on_exception:
  assumes "truthy tok"
  shows "(listing_raises h t league_name tok \<longrightarrow>
            snd (fetch_league_id h t league_name tok) = LeagueId (PStr league_name) \<and>
            Sent (ladder_request h (quote_str league_name) tok)
              \<in> set (fst (get_character_rank h t dbg files league_name name tok))) \<and>
         (\<forall>r. reply h t (leagues_request h tok) = Replied r \<and> status_code r \<noteq> 200 \<longrightarrow>
            get_character_rank h t dbg files league_name name tok =
              ([Logged INFO (CheckingLadder league_name), Sent (leagues_request h tok),
                Logged ERROR (LeaguesStatus (status_code r))], files, None)) \<and>
         (\<forall>r. reply h t (leagues_request h tok) = Replied r \<and> listing_finds_none r league_name \<longrightarrow>
            get_character_rank h t dbg files league_name name tok =
              ([Logged INFO (CheckingLadder league_name), Sent (leagues_request h tok),
                Logged ERROR (LeagueNotActive league_name)], files, None))"
proof (intro conjI impI allI)
  assume "listing_raises h t league_name tok"
  from fetch_league_id_raises [OF this] obtain e where
    f: "fetch_league_id h t league_name tok =
     ([Sent (leagues_request h tok), Logged ERROR (LeaguesError e)], LeagueId (PStr league_name))"
    by blast
  then show "snd (fetch_league_id h t league_name tok) = LeagueId (PStr league_name)" by simp
  from get_character_rank_ladder [OF assms f, of dbg files name]
    fetch_ladder_sends [of h league_name tok t dbg files league_name name]
  show "Sent (ladder_request h (quote_str league_name) tok)
          \<in> set (fst (get_character_rank h t dbg files league_name name tok))"
    by (auto split: prod.splits)
next
  fix r
  assume "reply h t (leagues_request h tok) = Replied r \<and> status_code r \<noteq> 200"
  with assms show "get_character_rank h t dbg files league_name name tok =
              ([Logged INFO (CheckingLadder league_name), Sent (leagues_request h tok),
                Logged ERROR (LeaguesStatus (status_code r))], files, None)"
    by (simp add: get_character_rank_def fetch_league_id_def)
next
  fix r
  assume "reply h t (leagues_request h tok) = Replied r \<and> listing_finds_none r league_name"
  then have "fetch_league_id h t league_name tok =
     ([Sent (leagues_request h tok), Logged ERROR (LeagueNotActive league_name)], ReturnNone)"
    using fetch_league_id_none by blast
  with assms show "get_character_rank h t dbg files league_name name tok =
              ([Logged INFO (CheckingLadder league_name), Sent (leagues_request h tok),
                Logged ERROR (LeagueNotActive league_name)], files, None)"
    by (simp add: get_character_rank_def)
qed

theorem lookup_fallback_only_on_exception_witness:
  "Sent (ladder_request (scripted Raised Raised (json_reply 200 (ladder_of [hero_entry])))
      ''Standard'' (PStr ''tok''))
     \<in> set (fst (get_character_rank
          (scripted Raised Raised (json_reply 200 (ladder_of [hero_entry])))
          1 False Map.empty ''Standard'' ''Hero'' (PStr ''tok''))) \<and>
   Sent (ladder_request (scripted Raised (plain_reply 200 []) (json_reply 200 (ladder_of [hero_entry])))
      ''Standard'' (PStr ''tok''))
     \<in> set (fst (get_character_rank
          (scripted Raised (plain_reply 200 []) (json_reply 200 (ladder_of [hero_entry])))
          1 False Map.empty ''Standard'' ''Hero'' (PStr ''tok''))) \<and>
   snd (snd (get_character_rank
     (scripted Raised (plain_reply 503 []) (json_reply 200 (ladder_of [hero_entry])))
     1 False Map.empty ''Standard'' ''Hero'' (PStr ''tok''))) = None \<and>
   snd (snd (get_character_rank
     (scripted Raised
        (json_reply 200 (PDict [(''leagues'',
           PList [PDict [(''id'', PStr ''Hardcore''), (''name'', PStr ''Hardcore'')]])]))
        (json_reply 200 (ladder_of [hero_entry])))
     1 False Map.empty ''Standard'' ''Hero'' (PStr ''tok''))) = None"
proof -
  let ?ld = "json_reply 200 (ladder_of [hero_entry])"
  let ?other = "json_reply 200 (PDict [(''leagues'',
           PList [PDict [(''id'', PStr ''Hardcore''), (''name'', PStr ''Hardcore'')]])])"
  have tok: "truthy (PStr ''tok'')" by simp
  have r1: "listing_raises (scripted Raised Raised ?ld) 1 ''Standard'' (PStr ''tok'')"
    by (simp add: listing_raises_def sample_leagues_reply)
  have r2: "listing_raises (scripted Raised (plain_reply 200 []) ?ld) 1 ''Standard'' (PStr ''tok'')"
    by (simp add: listing_raises_def sample_leagues_reply) (simp add: plain_reply_def leagues_scan_def)
  have r3: "reply (scripted Raised (plain_reply 503 []) ?ld) 1
               (leagues_request (scripted Raised (plain_reply 503 []) ?ld) (PStr ''tok''))
             = Replied \<lparr>status_code = 503, header = map_of [], json_body = None\<rparr> \<and>
            status_code \<lparr>status_code = 503, header = map_of [], json_body = None\<rparr> \<noteq> 200"
    by (simp add: sample_leagues_reply) (simp add: plain_reply_def)
  have r4: "reply (scripted Raised ?other ?ld) 1
               (leagues_request (scripted Raised ?other ?ld) (PStr ''tok''))
             = Replied \<lparr>status_code = 200, header = (\<lambda>k. None), json_body = Some (PDict [(''leagues'',
           PList [PDict [(''id'', PStr ''Hardcore''), (''name'', PStr ''Hardcore'')]])])\<rparr> \<and>
            listing_finds_none \<lparr>status_code = 200, header = (\<lambda>k. None), json_body = Some (PDict [(''leagues'',
           PList [PDict [(''id'', PStr ''Hardcore''), (''name'', PStr ''Hardcore'')]])])\<rparr> ''Standard''"
    by (simp add: sample_leagues_reply)
       (simp add: json_reply_def listing_finds_none_def other_league_def dict_get_def)
  note t = lookup_fallback_only_on_exception [OF tok, where t = 1 and dbg = False
      and files = Map.empty and league_name = "''Standard''" and name = "''Hero''"]
  from t [of "scripted Raised Raised ?ld"] r1
  have a: "Sent (ladder_request (scripted Raised Raised ?ld) ''Standard'' (PStr ''tok''))
     \<in> set (fst (get_character_rank (scripted Raised Raised ?ld)
          1 False Map.empty ''Standard'' ''Hero'' (PStr ''tok'')))"
    by (simp add: quote_str_standard)
  from t [of "scripted Raised (plain_reply 200 []) ?ld"] r2
  have b: "Sent (ladder_request (scripted Raised (plain_reply 200 []) ?ld) ''Standard'' (PStr ''tok''))
     \<in> set (fst (get_character_rank (scripted Raised (plain_reply 200 []) ?ld)
          1 False Map.empty ''Standard'' ''Hero'' (PStr ''tok'')))"
    by (simp add: quote_str_standard)
  from t [of "scripted Raised (plain_reply 503 []) ?ld"] r3
  have c: "snd (snd (get_character_rank (scripted Raised (plain_reply 503 []) ?ld)
     1 False Map.empty ''Standard'' ''Hero'' (PStr ''tok''))) = None"
    by simp
  from t [of "scripted Raised ?other ?ld"] r4
  have d: "snd (snd (get_character_rank (scripted Raised ?other ?ld)
     1 False Map.empty ''Standard'' ''Hero'' (PStr ''tok''))) = None"
    by simp
  from a b c d show ?thesis by simp
qed

text \<open>
  C1 as the specification states it (the fallback also when the scan finds no match,
  and whenever the listing call fails) does not hold. With a listing of status 200 that
  names only \<^verbatim>\<open>Hardcore\<close>, and with a listing of status 503, the call for \<^verbatim>\<open>Standard\<close>
  ends after the league request with \<^verbatim>\<open>None\<close>, although the ladder would have held the
  character: the trace below is the whole activity, and it has no ladder request.
\<close>

theorem lookup_aborts_counterexample:
  "get_character_rank
     (scripted Raised
        (json_reply 200 (PDict [(''leagues'',
           PList [PDict [(''id'', PStr ''Hardcore''), (''name'', PStr ''Hardcore'')]])]))
        (json_reply 200 (ladder_of [hero_entry])))
     1 False Map.empty ''Standard'' ''Hero'' (PStr ''tok'') =
     ([Logged INFO (CheckingLadder ''Standard''),
       Sent (GET ''https://api.pathofexile.com/league?realm=poe2''
         [(''User-Agent'', user_agent), (''Accept'', ''application/json''),
          (''Authorization'', ''Bearer tok'')]),
       Logged ERROR (LeagueNotActive ''Standard'')],
      Map.empty, None) \<and>
   get_character_rank
     (scripted Raised (plain_reply 503 []) (json_reply 200 (ladder_of [hero_entry])))
     1 False Map.empty ''Standard'' ''Hero'' (PStr ''tok'') =
     ([Logged INFO (CheckingLadder ''Standard''),
       Sent (GET ''https://api.pathofexile.com/league?realm=poe2''
         [(''User-Agent'', user_agent), (''Accept'', ''application/json''),
          (''Authorization'', ''Bearer tok'')]),
       Logged ERROR (LeaguesStatus 503)],
      Map.empty, None)"
proof (intro conjI)
  show "get_character_rank
     (scripted Raised
        (json_reply 200 (PDict [(''leagues'',
           PList [PDict [(''id'', PStr ''Hardcore''), (''name'', PStr ''Hardcore'')]])]))
        (json_reply 200 (ladder_of [hero_entry])))
     1 False Map.empty ''Standard'' ''Hero'' (PStr ''tok'') =
     ([Logged INFO (CheckingLadder ''Standard''),
       Sent (GET ''https://api.pathofexile.com/league?realm=poe2''
         [(''User-Agent'', user_agent), (''Accept'', ''application/json''),
          (''Authorization'', ''Bearer tok'')]),
       Logged ERROR (LeagueNotActive ''Standard'')],
      Map.empty, None)"
    apply (simp add: get_character_rank_def fetch_league_id_def sample_leagues_reply)
    apply (simp add: json_reply_def leagues_scan_def dict_get_def request_defs)
    done
  show "get_character_rank
     (scripted Raised (plain_reply 503 []) (json_reply 200 (ladder_of [hero_entry])))
     1 False Map.empty ''Standard'' ''Hero'' (PStr ''tok'') =
     ([Logged INFO (CheckingLadder ''Standard''),
       Sent (GET ''https://api.pathofexile.com/league?realm=poe2''
         [(''User-Agent'', user_agent), (''Accept'', ''application/json''),
          (''Authorization'', ''Bearer tok'')]),
       Logged ERROR (LeaguesStatus 503)],
      Map.empty, None)"
    apply (simp add: get_character_rank_def fetch_league_id_def sample_leagues_reply)
    apply (simp add: plain_reply_def request_defs)
    done
qed

section \<open>Entry Search\<close>

text \<open>
  C2. Let the ladder request be answered with status 200 and a body whose
  \<^verbatim>\<open>ladder.entries\<close> is a list, and let an entry of that list have a \<^verbatim>\<open>character\<close>
  whose \<^verbatim>\<open>name\<close> is exactly the tracked name, the entries before it being entries of
  other names (the first match in listing order wins). Then \<^verbatim>\<open>get_character_rank\<close>
  returns a result whose level is the \<^verbatim>\<open>level\<close> of that character, or \<^verbatim>\<open>"Unknown"\<close> when
  the field is absent; whose rank is the \<^verbatim>\<open>rank\<close> of the entry, or \<^verbatim>\<open>"Unknown"\<close>; and
  whose status is \<^verbatim>\<open>"DEAD"\<close> when the character's \<^verbatim>\<open>dead\<close> flag is set, else
  \<^verbatim>\<open>"RETIRED"\<close> when its \<^verbatim>\<open>retired\<close> flag is set, else none. A flag is set when Python
  takes its value for true, which for the booleans of the API is the value \<^verbatim>\<open>true\<close>.
  With debug logging the copy of the ladder must be writable, as the source writes it
  before the scan.
\<close>

theorem entry_search_match:
  assumes "truthy tok"
    and "fetch_league_id h t league_name tok = (evs, LeagueId league_id)"
    and "quote league_id = Inr enc"
    and "reply h t (ladder_request h enc tok) = Replied r"
    and "status_code r = 200"
    and "json_body r = Some d"
    and "ladder_entries d = Inr (PList (pre @ PDict entry # post))"
    and "list_all (\<lambda>p. other_entry p name) pre"
    and "map_of entry ''character'' = Some (PDict ch)"
    and "map_of ch ''name'' = Some (PStr name)"
    and "dbg \<longrightarrow> can_write h ''ladder_debug.json''"
  shows "snd (snd (get_character_rank h t dbg files league_name name tok)) =
     Some \<lparr>level = dict_get ch ''level'' (PStr ''Unknown''),
           rank = dict_get entry ''rank'' (PStr ''Unknown''),
           status = (if truthy (dict_get ch ''dead'' (PBool False)) then Some ''DEAD''
                     else if truthy (dict_get ch ''retired'' (PBool False)) then Some ''RETIRED''
                     else None)\<rparr>"
  using get_character_rank_result [OF assms(1,2)] fetch_ladder_match [OF assms(3-11)]
  by simp

theorem entry_search_match_witness:
  "snd (snd (get_character_rank
     (scripted Raised (json_reply 200 standard_listing)
        (json_reply 200 (ladder_of [rival_entry, hero_entry, veteran_entry])))
     1 False Map.empty ''Standard'' ''Hero'' (PStr ''tok''))) =
     Some \<lparr>level = PInt 92, rank = PInt 5, status = None\<rparr> \<and>
   snd (snd (get_character_rank
     (scripted Raised (json_reply 200 standard_listing)
        (json_reply 200 (ladder_of [rival_entry, hero_entry, veteran_entry])))
     1 False Map.empty ''Standard'' ''Rival'' (PStr ''tok''))) =
     Some \<lparr>level = PInt 100, rank = PInt 1, status = Some ''DEAD''\<rparr> \<and>
   snd (snd (get_character_rank
     (scripted Raised (json_reply 200 standard_listing)
        (json_reply 200 (ladder_of [rival_entry, hero_entry, veteran_entry])))
     1 False Map.empty ''Standard'' ''Veteran'' (PStr ''tok''))) =
     Some \<lparr>level = PStr ''Unknown'', rank = PInt 7, status = Some ''RETIRED''\<rparr>"
proof -
  let ?ld = "ladder_of [rival_entry, hero_entry, veteran_entry]"
  let ?r = "\<lparr>status_code = 200, header = (\<lambda>k. None), json_body = Some ?ld\<rparr>"
  let ?h = "scripted Raised (json_reply 200 standard_listing) (json_reply 200 ?ld)"
  have tok: "truthy (PStr ''tok'')" by simp
  have rep: "reply ?h 1 (ladder_request ?h ''Standard'' (PStr ''tok'')) = Replied ?r"
    by (simp add: sample_ladder_reply) (simp add: json_reply_def)
  have st: "status_code ?r = 200" and body: "json_body ?r = Some ?ld" by simp_all
  have dbg: "False \<longrightarrow> can_write ?h ''ladder_debug.json''" by simp
  have hero: "ladder_entries ?ld =
      Inr (PList ([rival_entry] @
        PDict [(''rank'', PInt 5),
               (''character'', PDict [(''name'', PStr ''Hero''), (''level'', PInt 92)])]
        # [veteran_entry]))"
    by (simp add: ladder_entries_def ladder_of_def dict_get_def hero_entry_def)
  have rival: "ladder_entries ?ld =
      Inr (PList ([] @
        PDict [(''rank'', PInt 1), (''dead'', PBool False),
               (''character'', PDict [(''name'', PStr ''Rival''), (''level'', PInt 100),
                                      (''dead'', PBool True)])]
        # [hero_entry, veteran_entry]))"
    by (simp add: ladder_entries_def ladder_of_def dict_get_def rival_entry_def)
  have veteran: "ladder_entries ?ld =
      Inr (PList ([rival_entry, hero_entry] @
        PDict [(''rank'', PInt 7),
               (''character'', PDict [(''name'', PStr ''Veteran''), (''dead'', PBool False),
                                      (''retired'', PBool True)])]
        # []))"
    by (simp add: ladder_entries_def ladder_of_def dict_get_def veteran_entry_def)
  have pre1: "list_all (\<lambda>p. other_entry p ''Hero'') [rival_entry]"
    by (simp add: other_entry_def entry_name_def rival_entry_def dict_get_def)
  have pre2: "list_all (\<lambda>p. other_entry p ''Rival'') []" by simp
  have pre3: "list_all (\<lambda>p. other_entry p ''Veteran'') [rival_entry, hero_entry]"
    by (simp add: other_entry_def entry_name_def rival_entry_def hero_entry_def dict_get_def)
  note a = entry_search_match [OF tok sample_lookup quote_standard rep st body hero pre1 _ _ dbg,
      where ch = "[(''name'', PStr ''Hero''), (''level'', PInt 92)]" and files = Map.empty]
  note b = entry_search_match [OF tok sample_lookup quote_standard rep st body rival pre2 _ _ dbg,
      where ch = "[(''name'', PStr ''Rival''), (''level'', PInt 100), (''dead'', PBool True)]"
        and files = Map.empty]
  note c = entry_search_match [OF tok sample_lookup quote_standard rep st body veteran pre3 _ _ dbg,
      where ch = "[(''name'', PStr ''Veteran''), (''dead'', PBool False), (''retired'', PBool True)]"
        and files = Map.empty]
  from a b c show ?thesis by (simp add: dict_get_def)
qed

text \<open>
  C4. In a cycle whose ladder request is answered with status 200 and a body whose entry
  list is empty, or holds no entry whose name is the tracked name,
  \<^verbatim>\<open>get_character_rank\<close> returns \<^verbatim>\<open>None\<close>, and after \<^verbatim>\<open>write_output\<close> the output file
  (which the host lets the process open) is empty.
\<close>

theorem not_found_truncates:
  assumes "truthy tok"
    and "fetch_league_id h t league_name tok = (evs, LeagueId league_id)"
    and "quote league_id = Inr enc"
    and "reply h t (ladder_request h enc tok) = Replied r"
    and "status_code r = 200"
    and "json_body r = Some d"
    and "ladder_entries d = Inr entries"
    and "\<not> truthy entries \<or>
         (\<exists>es. py_iter entries = Inr es \<and>
            \<not> list_ex (\<lambda>entry. entry_named entry (character_name a)) es)"
    and "can_write h (output_path a)"
  shows "snd (snd (get_character_rank h t (debug a) files league_name (character_name a) tok))
           = None \<and>
         fst (snd (cycle h t a league_name tok files)) (output_path a) = Some (Text [])"
proof -
  from assms(5-8) have "shows_failure EmptyList r (character_name a) \<or>
      shows_failure NoMatch r (character_name a)"
    by auto
  then have "snd (snd (fetch_ladder h t (debug a) files league_name (character_name a) tok
      league_id)) = None"
    using fetch_ladder_failure [OF assms(3,4)] by blast
  with get_character_rank_result [OF assms(1,2)]
  have none: "snd (snd (get_character_rank h t (debug a) files league_name (character_name a) tok))
      = None" by simp
  then obtain evs' files' where
    "get_character_rank h t (debug a) files league_name (character_name a) tok =
       (evs', files', None)"
    by (cases "get_character_rank h t (debug a) files league_name (character_name a) tok") auto
  from cycle_no_result [OF this assms(9)] none show ?thesis by simp
qed

theorem not_found_truncates_witness:
  "snd (snd (get_character_rank
      (scripted Raised (json_reply 200 standard_listing) (json_reply 200 (ladder_of [])))
      1 False Map.empty ''Standard'' ''Hero'' (PStr ''tok''))) = None \<and>
   fst (snd (cycle
      (scripted Raised (json_reply 200 standard_listing) (json_reply 200 (ladder_of [])))
      1 tracker_args ''Standard'' (PStr ''tok'') Map.empty)) ''poe2_rank.txt'' = Some (Text []) \<and>
   snd (snd (get_character_rank
      (scripted Raised (json_reply 200 standard_listing)
         (json_reply 200 (ladder_of [rival_entry, veteran_entry])))
      1 False Map.empty ''Standard'' ''Hero'' (PStr ''tok''))) = None \<and>
   fst (snd (cycle
      (scripted Raised (json_reply 200 standard_listing)
         (json_reply 200 (ladder_of [rival_entry, veteran_entry])))
      1 tracker_args ''Standard'' (PStr ''tok'') Map.empty)) ''poe2_rank.txt'' = Some (Text [])"
proof -
  let ?ls = "json_reply 200 standard_listing"
  let ?r0 = "\<lparr>status_code = 200, header = (\<lambda>k. None), json_body = Some (ladder_of [])\<rparr>"
  let ?r1 = "\<lparr>status_code = 200, header = (\<lambda>k. None),
               json_body = Some (ladder_of [rival_entry, veteran_entry])\<rparr>"
  have tok: "truthy (PStr ''tok'')" by simp
  have rep0: "reply (scripted Raised ?ls (json_reply 200 (ladder_of []))) 1
      (ladder_request (scripted Raised ?ls (json_reply 200 (ladder_of []))) ''Standard''
         (PStr ''tok'')) = Replied ?r0"
    by (simp add: sample_ladder_reply) (simp add: json_reply_def)
  have rep1: "reply (scripted Raised ?ls (json_reply 200 (ladder_of [rival_entry, veteran_entry]))) 1
      (ladder_request (scripted Raised ?ls (json_reply 200 (ladder_of [rival_entry, veteran_entry])))
         ''Standard'' (PStr ''tok'')) = Replied ?r1"
    by (simp add: sample_ladder_reply) (simp add: json_reply_def)
  have e0: "ladder_entries (ladder_of []) = Inr (PList [])"
    and e1: "ladder_entries (ladder_of [rival_entry, veteran_entry]) =
               Inr (PList [rival_entry, veteran_entry])"
    by (simp_all add: ladder_entries_def ladder_of_def dict_get_def)
  have c0: "\<not> truthy (PList []) \<or>
         (\<exists>es. py_iter (PList []) = Inr es \<and>
            \<not> list_ex (\<lambda>entry. entry_named entry (character_name tracker_args)) es)"
    by simp
  have c1: "\<not> truthy (PList [rival_entry, veteran_entry]) \<or>
         (\<exists>es. py_iter (PList [rival_entry, veteran_entry]) = Inr es \<and>
            \<not> list_ex (\<lambda>entry. entry_named entry (character_name tracker_args)) es)"
    by (simp add: tracker_fields entry_named_def entry_name_def rival_entry_def
        veteran_entry_def dict_get_def)
  from not_found_truncates [OF tok sample_lookup quote_standard rep0 _ _ e0 c0,
      where files = Map.empty]
    not_found_truncates [OF tok sample_lookup quote_standard rep1 _ _ e1 c1,
      where files = Map.empty]
  show ?thesis by (simp add: tracker_fields scripted_can_write)
qed



text \<open>
  C8. Each of the six failures that the ladder reply can show (status 429, status 404, any
  other status than 200, a body that is not JSON, an empty entry list, no entry of the
  tracked name) gives the same result \<^verbatim>\<open>None\<close>, so that \<^verbatim>\<open>write_output\<close> does the same
  for all of them: it writes the empty file (or logs that it cannot).
\<close>

theorem failures_indistinguishable:
  assumes "truthy tok"
    and "fetch_league_id h t league_name tok = (evs, LeagueId league_id)"
    and "quote league_id = Inr enc"
    and "reply h t (ladder_request h enc tok) = Replied r"
    and "shows_failure f r name"
  shows "snd (snd (get_character_rank h t dbg files league_name name tok)) = None \<and>
         write_output h files' out
             (snd (snd (get_character_rank h t dbg files league_name name tok))) league_name =
           (if can_write h out then ([Logged INFO WroteEmpty], files'(out \<mapsto> Text []))
            else ([Logged ERROR WriteError], files'))"
proof -
  have "snd (snd (get_character_rank h t dbg files league_name name tok)) = None"
    using get_character_rank_result [OF assms(1,2)] fetch_ladder_failure [OF assms(3,4,5)]
    by simp
  then show ?thesis by (simp add: write_output_def)
qed

theorem failures_indistinguishable_witness:
  "snd (snd (get_character_rank
      (scripted Raised (json_reply 200 standard_listing) (plain_reply 429 []))
      1 False Map.empty ''Standard'' ''Hero'' (PStr ''tok''))) = None \<and>
   snd (snd (get_character_rank
      (scripted Raised (json_reply 200 standard_listing) (plain_reply 404 []))
      1 False Map.empty ''Standard'' ''Hero'' (PStr ''tok''))) = None \<and>
   snd (snd (get_character_rank
      (scripted Raised (json_reply 200 standard_listing) (plain_reply 500 []))
      1 False Map.empty ''Standard'' ''Hero'' (PStr ''tok''))) = None \<and>
   snd (snd (get_character_rank
      (scripted Raised (json_reply 200 standard_listing) (plain_reply 200 []))
      1 False Map.empty ''Standard'' ''Hero'' (PStr ''tok''))) = None \<and>
   snd (snd (get_character_rank
      (scripted Raised (json_reply 200 standard_listing) (json_reply 200 (ladder_of [])))
      1 False Map.empty ''Standard'' ''Hero'' (PStr ''tok''))) = None \<and>
   snd (snd (get_character_rank
      (scripted Raised (json_reply 200 standard_listing) (json_reply 200 (ladder_of [rival_entry])))
      1 False Map.empty ''Standard'' ''Hero'' (PStr ''tok''))) = None"
proof -
  let ?ls = "json_reply 200 standard_listing"
  have tok: "truthy (PStr ''tok'')" by simp
  have rep: "reply (scripted Raised ?ls (plain_reply c [])) 1
      (ladder_request (scripted Raised ?ls (plain_reply c [])) ''Standard'' (PStr ''tok''))
        = Replied \<lparr>status_code = c, header = map_of [], json_body = None\<rparr>" for c
    by (simp add: sample_ladder_reply) (simp add: plain_reply_def)
  have repj: "reply (scripted Raised ?ls (json_reply 200 v)) 1
      (ladder_request (scripted Raised ?ls (json_reply 200 v)) ''Standard'' (PStr ''tok''))
        = Replied \<lparr>status_code = 200, header = (\<lambda>k. None), json_body = Some v\<rparr>" for v
    by (simp add: sample_ladder_reply) (simp add: json_reply_def)
  have f1: "shows_failure RateLimit \<lparr>status_code = 429, header = map_of [], json_body = None\<rparr> ''Hero''"
    and f2: "shows_failure InvalidBracket \<lparr>status_code = 404, header = map_of [], json_body = None\<rparr> ''Hero''"
    and f3: "shows_failure OtherStatus \<lparr>status_code = 500, header = map_of [], json_body = None\<rparr> ''Hero''"
    and f4: "shows_failure MalformedJson \<lparr>status_code = 200, header = map_of [], json_body = None\<rparr> ''Hero''"
    by simp_all
  have f5: "shows_failure EmptyList
      \<lparr>status_code = 200, header = (\<lambda>k. None), json_body = Some (ladder_of [])\<rparr> ''Hero''"
    by (simp add: ladder_entries_def ladder_of_def dict_get_def)
  have f6: "shows_failure NoMatch
      \<lparr>status_code = 200, header = (\<lambda>k. None), json_body = Some (ladder_of [rival_entry])\<rparr> ''Hero''"
    by (simp add: ladder_entries_def ladder_of_def dict_get_def entry_named_def entry_name_def
        rival_entry_def)
  note t = failures_indistinguishable [OF tok sample_lookup quote_standard, where dbg = False
      and files = Map.empty and name = "''Hero''" and files' = Map.empty and out = "''poe2_rank.txt''"]
  from t [OF rep f1] t [OF rep f2] t [OF rep f3] t [OF rep f4] t [OF repj f5] t [OF repj f6]
  show ?thesis by simp
qed

section \<open>Output Writer\<close>

text \<open>
  C3. For every result that \<^verbatim>\<open>get_character_rank\<close> returns for a found character,
  \<^verbatim>\<open>write_output\<close> puts into the output file exactly the documented line: without a
  status \<^verbatim>\<open>Level: {level} | Rank: {rank} | {bracket}\<close>, with one
  \<^verbatim>\<open>Level: {level} | Rank: [{STATUS}] {rank} | {bracket}\<close>, the level and the rank rendered as
  an f-string renders them. In particular level 92, rank 5 and the bracket \<^verbatim>\<open>Standard\<close> give
  \<^verbatim>\<open>Level: 92 | Rank: 5 | Standard\<close>, and with the status \<^verbatim>\<open>DEAD\<close>
  \<^verbatim>\<open>Level: 92 | Rank: [DEAD] 5 | Standard\<close>. The host lets the process open the file.
\<close>

theorem writer_format:
  assumes "can_write h out"
  shows "(get_character_rank h t dbg files league_name name tok = (evs, files', Some cd) \<longrightarrow>
          write_output h files' out (Some cd) bracket =
            ([Logged INFO (Updated (documented_line (status cd)
                 (py_str (container_repr h) (level cd)) (py_str (container_repr h) (rank cd))
                 bracket))],
             files'(out \<mapsto> Text (documented_line (status cd)
                 (py_str (container_repr h) (level cd)) (py_str (container_repr h) (rank cd))
                 bracket)))) \<and>
         write_output h files out (Some \<lparr>level = PInt 92, rank = PInt 5, status = None\<rparr>)
             ''Standard'' =
           ([Logged INFO (Updated ''Level: 92 | Rank: 5 | Standard'')],
            files(out \<mapsto> Text ''Level: 92 | Rank: 5 | Standard'')) \<and>
         write_output h files out
             (Some \<lparr>level = PInt 92, rank = PInt 5, status = Some ''DEAD''\<rparr>) ''Standard'' =
           ([Logged INFO (Updated ''Level: 92 | Rank: [DEAD] 5 | Standard'')],
            files(out \<mapsto> Text ''Level: 92 | Rank: [DEAD] 5 | Standard''))"
proof -
  have general: "write_output h files' out (Some cd) bracket =
            ([Logged INFO (Updated (documented_line (status cd)
                 (py_str (container_repr h) (level cd)) (py_str (container_repr h) (rank cd))
                 bracket))],
             files'(out \<mapsto> Text (documented_line (status cd)
                 (py_str (container_repr h) (level cd)) (py_str (container_repr h) (rank cd))
                 bracket)))"
    if "get_character_rank h t dbg files league_name name tok = (evs, files', Some cd)"
  proof -
    from get_character_rank_found [OF that]
    consider "status cd = None" | "status cd = Some ''DEAD''" | "status cd = Some ''RETIRED''"
      by auto
    then show ?thesis
      using assms by cases (simp_all add: write_output_def format_line_def)
  qed
  have n92: "show_int 92 = ''92''" and n5: "show_int 5 = ''5''"
    by (simp_all add: show_int_def show_nat.simps digit_char_def)
  have plain: "write_output h files out (Some \<lparr>level = PInt 92, rank = PInt 5, status = None\<rparr>)
             ''Standard'' =
           ([Logged INFO (Updated ''Level: 92 | Rank: 5 | Standard'')],
            files(out \<mapsto> Text ''Level: 92 | Rank: 5 | Standard''))"
    using assms by (simp add: write_output_def format_line_def n92 n5)
  have dead: "write_output h files out
             (Some \<lparr>level = PInt 92, rank = PInt 5, status = Some ''DEAD''\<rparr>) ''Standard'' =
           ([Logged INFO (Updated ''Level: 92 | Rank: [DEAD] 5 | Standard'')],
            files(out \<mapsto> Text ''Level: 92 | Rank: [DEAD] 5 | Standard''))"
    using assms by (simp add: write_output_def format_line_def n92 n5)
  from general plain dead show ?thesis by blast
qed

theorem writer_format_witness:
  "write_output
     (scripted Raised (json_reply 200 standard_listing)
        (json_reply 200 (ladder_of [rival_entry, hero_entry, veteran_entry])))
     Map.empty ''poe2_rank.txt''
     (Some \<lparr>level = PInt 100, rank = PInt 1, status = Some ''DEAD''\<rparr>) ''Standard'' =
     ([Logged INFO (Updated ''Level: 100 | Rank: [DEAD] 1 | Standard'')],
      [''poe2_rank.txt'' \<mapsto> Text ''Level: 100 | Rank: [DEAD] 1 | Standard'']) \<and>
   write_output
     (scripted Raised (json_reply 200 standard_listing)
        (json_reply 200 (ladder_of [rival_entry, hero_entry, veteran_entry])))
     Map.empty ''poe2_rank.txt''
     (Some \<lparr>level = PInt 92, rank = PInt 5, status = None\<rparr>) ''Standard'' =
     ([Logged INFO (Updated ''Level: 92 | Rank: 5 | Standard'')],
      [''poe2_rank.txt'' \<mapsto> Text ''Level: 92 | Rank: 5 | Standard''])"
proof -
  let ?h = "scripted Raised (json_reply 200 standard_listing)
        (json_reply 200 (ladder_of [rival_entry, hero_entry, veteran_entry]))"
  have w: "can_write ?h ''poe2_rank.txt''" by (simp add: scripted_def)
  have n: "show_int 100 = ''100''" "show_int 1 = ''1''"
    by (simp_all add: show_int_def show_nat.simps digit_char_def)
  from writer_format [OF w, of 1 False Map.empty "''Standard''" "''Rival''" "PStr ''tok''" _
      Map.empty "\<lparr>level = PInt 100, rank = PInt 1, status = Some ''DEAD''\<rparr>" "''Standard''"]
    sample_found
  show ?thesis by (simp add: n)
qed

end
